theory Spec2Isabelle
  imports
    Complex_Main
    "HOL-Library.Product_Lexorder"
    "HOL-Library.Sublist"
    "HOL-Library.Multiset"
begin

section \<open>Financial Expense Tracker: the embedding of financial\_expenses.py\<close>

text \<open>
  The program keeps a list of expense rows in a CSV file and offers a menu of actions
  on it. Each action of \<open>main\<close> reads the whole file, works on the list in memory and,
  for a mutation, writes the whole list back. The embedding follows that shape: the
  file is a value that is passed in and returned, every exception of the Python code
  is a value of \<open>error\<close>, and each menu branch is one function.

  Three things are abstracted, and every theorem below is read with them in mind.
  \<^item> A Python \<open>float\<close> is modelled by \<open>pyfloat\<close>: an exact rational, the two
    infinities or NaN. Comparison, truthiness and the special values are as in Python;
    the rounding of an arithmetic result to the nearest double, overflow to infinity
    and the sign of zero are not modelled.
  \<^item> A Python \<open>str\<close> is modelled by \<open>string\<close>; letters outside ASCII have no case
    mapping here and only the ASCII digits and white space are recognised.
  \<^item> The text layer of the CSV file is not modelled: the file is the list of rows that
    \<open>csv.reader\<close> returns, a row is its four fields, and a float written by the
    program is kept as the number it denotes (\<open>float (repr x) = x\<close> in Python).
\<close>

subsection \<open>Exceptions\<close>

datatype error = ValueError | IndexError | ZeroDivisionError

subsection \<open>Floats\<close>

datatype pyfloat = Fin rat | PInf | NInf | NaN

text \<open>Python's \<open><\<close>, \<open>>\<close>, \<open>==\<close> and \<open><=\<close> on floats: every comparison with NaN is false.\<close>

fun fl_lt :: "pyfloat \<Rightarrow> pyfloat \<Rightarrow> bool" where
  "fl_lt (Fin a) (Fin b) = (a < b)"
| "fl_lt (Fin a) PInf = True"
| "fl_lt NInf (Fin b) = True"
| "fl_lt NInf PInf = True"
| "fl_lt _ _ = False"

definition fl_gt :: "pyfloat \<Rightarrow> pyfloat \<Rightarrow> bool" where
  "fl_gt a b = fl_lt b a"

definition fl_eq :: "pyfloat \<Rightarrow> pyfloat \<Rightarrow> bool" where
  "fl_eq a b = (a \<noteq> NaN \<and> a = b)"

definition fl_le :: "pyfloat \<Rightarrow> pyfloat \<Rightarrow> bool" where
  "fl_le a b = (fl_lt a b \<or> fl_eq a b)"

text \<open>\<open>bool(x)\<close> of a float is \<open>x != 0.0\<close>, so NaN is truthy and zero is falsy.\<close>

definition truthy :: "pyfloat \<Rightarrow> bool" where
  "truthy x = (x \<noteq> Fin 0)"

fun fl_sgn :: "pyfloat \<Rightarrow> int" where
  "fl_sgn (Fin a) = (if a < 0 then - 1 else if a = 0 then 0 else 1)"
| "fl_sgn PInf = 1"
| "fl_sgn NInf = - 1"
| "fl_sgn NaN = 0"

definition inf_of :: "int \<Rightarrow> pyfloat" where
  "inf_of s = (if s < 0 then NInf else PInf)"

fun fl_add :: "pyfloat \<Rightarrow> pyfloat \<Rightarrow> pyfloat" where
  "fl_add (Fin a) (Fin b) = Fin (a + b)"
| "fl_add NaN _ = NaN"
| "fl_add _ NaN = NaN"
| "fl_add PInf NInf = NaN"
| "fl_add NInf PInf = NaN"
| "fl_add PInf _ = PInf"
| "fl_add _ PInf = PInf"
| "fl_add NInf _ = NInf"
| "fl_add _ NInf = NInf"

fun fl_mul :: "pyfloat \<Rightarrow> pyfloat \<Rightarrow> pyfloat" where
  "fl_mul (Fin a) (Fin b) = Fin (a * b)"
| "fl_mul NaN _ = NaN"
| "fl_mul _ NaN = NaN"
| "fl_mul a b = (if fl_sgn a * fl_sgn b = 0 then NaN else inf_of (fl_sgn a * fl_sgn b))"

text \<open>Float division raises \<open>ZeroDivisionError\<close> on a zero divisor, whatever the dividend.\<close>

fun fl_div :: "pyfloat \<Rightarrow> pyfloat \<Rightarrow> error + pyfloat" where
  "fl_div a (Fin b) =
     (if b = 0 then Inl ZeroDivisionError
      else case a of
        Fin x \<Rightarrow> Inr (Fin (x / b))
      | NaN \<Rightarrow> Inr NaN
      | _ \<Rightarrow> Inr (inf_of (fl_sgn a * fl_sgn (Fin b))))"
| "fl_div NaN _ = Inr NaN"
| "fl_div _ NaN = Inr NaN"
| "fl_div (Fin a) _ = Inr (Fin 0)"
| "fl_div _ _ = Inr NaN"

subsection \<open>Formatting with \<open>:.2f\<close>\<close>

definition digit_char :: "nat \<Rightarrow> char" where
  "digit_char d = char_of (48 + d)"

fun show_nat :: "nat \<Rightarrow> string" where
  "show_nat n = (if n < 10 then [digit_char n] else show_nat (n div 10) @ [digit_char (n mod 10)])"

declare show_nat.simps [simp del]

text \<open>The value is rounded to two decimals, a tie going to the even neighbour.\<close>

definition round_half_even :: "rat \<Rightarrow> int" where
  "round_half_even x =
     (let f = \<lfloor>x\<rfloor>; d = x - of_int f
      in if d < 1 / 2 then f else if 1 / 2 < d then f + 1 else if even f then f else f + 1)"

definition fmt2 :: "pyfloat \<Rightarrow> string" where
  "fmt2 x =
     (case x of
        NaN \<Rightarrow> ''nan''
      | PInf \<Rightarrow> ''inf''
      | NInf \<Rightarrow> ''-inf''
      | Fin r \<Rightarrow>
          (let n = nat (round_half_even (\<bar>r\<bar> * 100))
           in (if r < 0 then ''-'' else '''') @ show_nat (n div 100) @ ''.'' @
              [digit_char (n mod 100 div 10), digit_char (n mod 10)]))"

subsection \<open>\<open>float(str)\<close>\<close>

text \<open>
  \<open>float\<close> of a string first checks and removes underscores (allowed only between two
  digits), strips ASCII white space at both ends, and then needs the whole rest to be
  one number: an optional sign, then either \<open>inf\<close>, \<open>infinity\<close> or \<open>nan\<close> in any
  letter case, or decimal digits with an optional point and an optional exponent. It
  raises \<open>ValueError\<close> otherwise. The names follow CPython's functions.
\<close>

definition is_digit :: "char \<Rightarrow> bool" where
  "is_digit c = (c \<in> set ''0123456789'')"

definition digit_val :: "char \<Rightarrow> nat" where
  "digit_val c = of_char c - 48"

definition digits_val :: "string \<Rightarrow> nat" where
  "digits_val ds = foldl (\<lambda>n c. 10 * n + digit_val c) 0 ds"

definition Py_ISSPACE :: "char \<Rightarrow> bool" where
  "Py_ISSPACE c = (c \<in> set [CHR 0x09, CHR 0x0A, CHR 0x0B, CHR 0x0C, CHR 0x0D, CHR 0x20])"

definition Py_TOLOWER :: "char \<Rightarrow> char" where
  "Py_TOLOWER c =
     (if 65 \<le> (of_char c :: nat) \<and> (of_char c :: nat) \<le> 90 then char_of ((of_char c :: nat) + 32) else c)"

fun strip_underscores :: "char \<Rightarrow> string \<Rightarrow> string option" where
  "strip_underscores prev [] = (if prev = CHR ''_'' then None else Some [])"
| "strip_underscores prev (c # cs) =
     (if c = CHR ''_'' then (if is_digit prev then strip_underscores c cs else None)
      else if prev = CHR ''_'' \<and> \<not> is_digit c then None
      else map_option ((#) c) (strip_underscores c cs))"

definition parse_sign :: "string \<Rightarrow> bool \<times> string" where
  "parse_sign s =
     (case s of
        [] \<Rightarrow> (False, s)
      | c # cs \<Rightarrow> if c = CHR ''-'' then (True, cs) else if c = CHR ''+'' then (False, cs) else (False, s))"

definition parse_exponent :: "string \<Rightarrow> int \<times> string" where
  "parse_exponent s =
     (case s of
        [] \<Rightarrow> (0, s)
      | c # cs \<Rightarrow>
          if c = CHR ''e'' \<or> c = CHR ''E'' then
            (let (neg, s1) = parse_sign cs; ds = takeWhile is_digit s1
             in if ds = [] then (0, s)
                else (if neg then - int (digits_val ds) else int (digits_val ds), dropWhile is_digit s1))
          else (0, s))"

definition pow10 :: "int \<Rightarrow> rat" where
  "pow10 e = (if 0 \<le> e then 10 ^ nat e else 1 / 10 ^ nat (- e))"

text \<open>
  The decimal part of \<open>strtod\<close>: the value and the unread rest, or \<open>None\<close> when no
  number starts the string. An exponent mark with no digit after it is left unread.
\<close>

definition strtod_decimal :: "string \<Rightarrow> (rat \<times> string) option" where
  "strtod_decimal s =
     (let (neg, s1) = parse_sign s;
          ip = takeWhile is_digit s1;
          s2 = dropWhile is_digit s1;
          (fp, s3) = (case s2 of
                        [] \<Rightarrow> ([], s2)
                      | c # cs \<Rightarrow> if c = CHR ''.'' then (takeWhile is_digit cs, dropWhile is_digit cs)
                                  else ([], s2))
      in if ip = [] \<and> fp = [] then None
         else let (ex, s4) = parse_exponent s3;
                  m = of_nat (digits_val (ip @ fp)) * pow10 (ex - int (length fp))
              in Some (if neg then - m else m, s4))"

definition ci_prefix :: "string \<Rightarrow> string \<Rightarrow> bool" where
  "ci_prefix p s = (map Py_TOLOWER (take (length p) s) = p)"

definition parse_inf_or_nan :: "string \<Rightarrow> (pyfloat \<times> string) option" where
  "parse_inf_or_nan s =
     (let (neg, s1) = parse_sign s
      in if ci_prefix ''inf'' s1 then
           (let s2 = drop 3 s1; s3 = (if ci_prefix ''inity'' s2 then drop 5 s2 else s2)
            in Some (if neg then NInf else PInf, s3))
         else if ci_prefix ''nan'' s1 then Some (NaN, drop 3 s1)
         else None)"

definition strtod :: "string \<Rightarrow> (pyfloat \<times> string) option" where
  "strtod s =
     (case strtod_decimal s of
        Some (r, rest) \<Rightarrow> Some (Fin r, rest)
      | None \<Rightarrow> parse_inf_or_nan s)"

definition float_from_string_inner :: "string \<Rightarrow> error + pyfloat" where
  "float_from_string_inner s0 =
     (let s = dropWhile Py_ISSPACE s0
      in if s = [] then Inl ValueError
         else case strtod (rev (dropWhile Py_ISSPACE (rev s))) of
                None \<Rightarrow> Inl ValueError
              | Some (x, rest) \<Rightarrow> if rest = [] then Inr x else Inl ValueError)"

definition py_float :: "string \<Rightarrow> error + pyfloat" where
  "py_float s =
     (if CHR ''_'' \<in> set s then
        (case strip_underscores (CHR 0x00) s of
           None \<Rightarrow> Inl ValueError
         | Some s' \<Rightarrow> float_from_string_inner s')
      else float_from_string_inner s)"

subsection \<open>\<open>is_valid_amount\<close>\<close>

text \<open>
  \<^verbatim>\<open>
  def is_valid_amount(amount):
      try:
          float(amount)
          return True
      except ValueError:
          return False
  \<close>
  Only \<open>ValueError\<close> is caught; any other exception would pass through.
\<close>

definition is_valid_amount :: "string \<Rightarrow> error + bool" where
  "is_valid_amount amount =
     (case py_float amount of
        Inr _ \<Rightarrow> Inr True
      | Inl ValueError \<Rightarrow> Inr False
      | Inl e \<Rightarrow> Inl e)"

subsection \<open>\<open>financial_feedback\<close>\<close>

definition financial_feedback :: "pyfloat \<Rightarrow> pyfloat option \<Rightarrow> string" where
  "financial_feedback total' budget =
     (if fl_eq total' (Fin 0) then
        ''No expenses recorded. Start tracking to understand your habits.''
      else
        (let feedback =
               (if fl_lt total' (Fin 1000) then
                  ''You're doing great! Keep up the low spending habits.''
                else if fl_lt total' (Fin 5000) then
                  ''You're managing fairly well, but review any non-essentials.''
                else if fl_lt total' (Fin 10000) then
                  ''Consider budgeting more strictly and cutting excesses.''
                else
                  ''Warning: High spending! Analyze where most of your money is going.'')
         in case budget of
              None \<Rightarrow> feedback
            | Some b \<Rightarrow>
                if truthy b then
                  (if fl_gt total' b then
                     feedback @ '' You have exceeded your budget of R'' @ fmt2 b @
                       ''. Consider cutting back next month.''
                   else
                     feedback @ '' You are within your budget of R'' @ fmt2 b @ ''. Well done!'')
                else feedback))"

subsection \<open>The store\<close>

text \<open>
  A row of the file is the list \<open>[date, amount, category, note]\<close> (the field
  \<open>note\<close> is written \<open>note'\<close>, since \<open>note\<close> is a keyword of Isabelle). The amount cell is
  text when it was typed into the file, and the float itself when the program wrote it
  (\<open>Add Expense\<close> and \<open>Edit Expense\<close> both hand a float to \<open>csv.writer\<close>).
  \<open>float_cell\<close> is \<open>float(row[1])\<close>. The file is \<open>None\<close> while it does not exist.
\<close>

datatype cell = Str string | Flt pyfloat

record expense =
  date :: string
  amount :: cell
  category :: string
  note' :: string

type_synonym store = "expense list option"

definition float_cell :: "cell \<Rightarrow> error + pyfloat" where
  "float_cell c = (case c of Str s \<Rightarrow> py_float s | Flt x \<Rightarrow> Inr x)"

definition read_expenses :: "store \<Rightarrow> expense list" where
  "read_expenses file = (case file of None \<Rightarrow> [] | Some rows \<Rightarrow> rows)"

definition write_expenses :: "expense list \<Rightarrow> store" where
  "write_expenses expenses = Some expenses"

subsection \<open>What a branch shows\<close>

text \<open>
  The calls of the UI library a branch makes, in order. A message that embeds a whole
  row (\<open>f"{i}: {row}"\<close>, \<open>f"Deleted: {removed}"\<close>) carries the row itself.
\<close>

datatype ui =
    St_metric string string
  | St_write string
  | St_write_row nat expense
  | St_subheader string
  | St_info string
  | St_success string
  | St_success_deleted expense
  | St_warning string
  | St_error string
  | St_table "expense list"

subsection \<open>The salary in the session state\<close>

text \<open>
  \<^verbatim>\<open>
  if "salary" not in st.session_state:
      st.session_state.salary = None
  salary_input = st.sidebar.number_input(..., min_value=0.0, ...)
  if salary_input:
      st.session_state.salary = salary_input
  \<close>
  The first argument is the session state before the run (\<open>None\<close>: no key \<open>salary\<close>
  yet, or the value \<open>None\<close>).
\<close>

definition salary_setup :: "pyfloat option \<Rightarrow> pyfloat \<Rightarrow> pyfloat option" where
  "salary_setup session_salary salary_input =
     (if truthy salary_input then Some salary_input else session_salary)"

subsection \<open>View Total\<close>

text \<open>\<open>sum(float(row[1]) for row in expenses)\<close>: from 0, left to right.\<close>

fun sum_amounts :: "pyfloat \<Rightarrow> expense list \<Rightarrow> error + pyfloat" where
  "sum_amounts acc [] = Inr acc"
| "sum_amounts acc (row # rows) =
     (case float_cell (amount row) of
        Inl e \<Rightarrow> Inl e
      | Inr x \<Rightarrow> sum_amounts (fl_add acc x) rows)"

definition total_of :: "expense list \<Rightarrow> error + pyfloat" where
  "total_of expenses = sum_amounts (Fin 0) expenses"

text \<open>The last argument is the tip \<open>random.choice\<close> picked in \<open>show_random_tip\<close>.\<close>

definition view_total :: "store \<Rightarrow> pyfloat option \<Rightarrow> string \<Rightarrow> error + ui list" where
  "view_total file salary tip =
     (case total_of (read_expenses file) of
        Inl e \<Rightarrow> Inl e
      | Inr total' \<Rightarrow>
          (let shown = [St_metric ''Total Expenses'' (''R'' @ fmt2 total')]
           in case salary of
                None \<Rightarrow>
                  Inr (shown @
                    [St_info ''Please enter your salary in the sidebar to see usage insights.'',
                     St_info tip])
              | Some salary' \<Rightarrow>
                  if truthy salary' then
                    (case fl_div total' salary' of
                       Inl e \<Rightarrow> Inl e
                     | Inr q \<Rightarrow>
                         (let percent_used = fl_mul q (Fin 100)
                          in Inr (shown @
                               [St_write (''You've spent **'' @ fmt2 percent_used @
                                  ''%** of your salary (R'' @ fmt2 salary' @ '').''),
                                if fl_gt percent_used (Fin 70) then
                                  St_warning
                                    ''Over 70% of your income spent. Consider adjusting your expenses.''
                                else St_success ''You're within a safe spending range.'',
                                St_info tip])))
                  else
                    Inr (shown @
                      [St_info ''Please enter your salary in the sidebar to see usage insights.'',
                       St_info tip])))"

subsection \<open>Delete Expense\<close>

text \<open>
  \<open>idx\<close> is the number the ID field holds (the widget is built with \<open>min_value=0\<close>,
  so it is never negative) and \<open>clicked\<close> whether the button was pressed in this run.
  \<open>expenses.pop(idx)\<close> raises \<open>IndexError\<close> out of range.
\<close>

definition listing :: "expense list \<Rightarrow> ui list" where
  "listing expenses = map (\<lambda>(i, row). St_write_row i row) (enumerate 0 expenses)"

definition delete_expense :: "store \<Rightarrow> nat \<Rightarrow> bool \<Rightarrow> error + store \<times> ui list" where
  "delete_expense file idx clicked =
     (let expenses = read_expenses file
      in if expenses \<noteq> [] then
           (if clicked then
              (if idx < length expenses then
                 (let removed = expenses ! idx;
                      expenses' = take idx expenses @ drop (Suc idx) expenses
                  in Inr (write_expenses expenses',
                          listing expenses @ [St_success_deleted removed]))
               else Inl IndexError)
            else Inr (file, listing expenses))
         else Inr (file, [St_info ''No expenses to delete.'']))"

subsection \<open>Edit Expense\<close>

text \<open>
  \<open>expenses[idx]\<close> is read before the button is looked at. The three texts are what the
  form fields hold when the run happens.
\<close>

definition edit_expense ::
  "store \<Rightarrow> nat \<Rightarrow> string \<Rightarrow> string \<Rightarrow> string \<Rightarrow> bool \<Rightarrow> error + store \<times> ui list" where
  "edit_expense file idx new_amount new_category new_note clicked =
     (let expenses = read_expenses file
      in if expenses \<noteq> [] then
           (if idx < length expenses then
              (let date' = date (expenses ! idx)
               in if clicked then
                    (case is_valid_amount new_amount of
                       Inl e \<Rightarrow> Inl e
                     | Inr True \<Rightarrow>
                         (case py_float new_amount of
                            Inl e \<Rightarrow> Inl e
                          | Inr x \<Rightarrow>
                              Inr (write_expenses
                                     (expenses[idx := \<lparr>date = date', amount = Flt x,
                                                       category = new_category, note' = new_note\<rparr>]),
                                   listing expenses @ [St_success ''Expense updated.'']))
                     | Inr False \<Rightarrow>
                         Inr (file, listing expenses @ [St_error ''Invalid amount entered.'']))
                  else Inr (file, listing expenses))
            else Inl IndexError)
         else Inr (file, [St_info ''No expenses to edit.'']))"

subsection \<open>Filter Expenses\<close>

definition lower :: "string \<Rightarrow> string" where
  "lower s = map Py_TOLOWER s"

definition startswith :: "string \<Rightarrow> string \<Rightarrow> bool" where
  "startswith s p = prefix p s"

definition filterByCategory :: "expense list \<Rightarrow> string \<Rightarrow> expense list" where
  "filterByCategory expenses category' = [e \<leftarrow> expenses. lower (category e) = lower category']"

definition filterByDatePrefix :: "expense list \<Rightarrow> string \<Rightarrow> expense list" where
  "filterByDatePrefix expenses date' = [e \<leftarrow> expenses. startswith (date e) date']"

datatype filter_type = Category string | Date string

definition filter_expenses :: "store \<Rightarrow> filter_type \<Rightarrow> ui list" where
  "filter_expenses file choice =
     (let expenses = read_expenses file
      in case choice of
           Category category' \<Rightarrow> [St_table (filterByCategory expenses category')]
         | Date date' \<Rightarrow> [St_table (filterByDatePrefix expenses date')])"

text \<open>
  Equality of two texts up to the case of their ASCII letters, written from the words
  "matches case-insensitively" and not from the code: letter by letter.
\<close>

definition is_upper :: "char \<Rightarrow> bool" where
  "is_upper c = (c \<in> set ''ABCDEFGHIJKLMNOPQRSTUVWXYZ'')"

definition same_letter :: "char \<Rightarrow> char \<Rightarrow> bool" where
  "same_letter a b =
     (a = b \<or> (is_upper a \<and> of_char b = (of_char a :: nat) + 32)
            \<or> (is_upper b \<and> of_char a = (of_char b :: nat) + 32))"

fun caseless_eq :: "string \<Rightarrow> string \<Rightarrow> bool" where
  "caseless_eq [] [] = True"
| "caseless_eq (a # as) (b # bs) = (same_letter a b \<and> caseless_eq as bs)"
| "caseless_eq _ _ = False"

subsection \<open>\<open>datetime.strptime(x, "%Y-%m-%d %H:%M")\<close>\<close>

text \<open>
  \<open>strptime\<close> turns the format into the regular expression
  \<^verbatim>\<open>(?P<Y>\d\d\d\d)-(?P<m>1[0-2]|0[1-9]|[1-9])-(?P<d>3[0-1]|[1-2]\d|0[1-9]|[1-9]| [1-9])\s+(?P<H>2[0-3]|[0-1]\d|\d):(?P<M>[0-5]\d|\d)\<close>,
  matches it at the start of the text, raises \<open>ValueError\<close> when there is no match
  or when text is left over, and then builds the date, which raises \<open>ValueError\<close> for
  the year 0 and for a day the month does not have. A matcher returns every way to
  match a prefix, in the order the regular expression engine tries them, each with the
  unread rest; the engine takes the first complete match.
\<close>

type_synonym datetime = "nat \<times> nat \<times> nat \<times> nat \<times> nat"

definition year :: "datetime \<Rightarrow> nat" where
  "year t = fst t"

definition month :: "datetime \<Rightarrow> nat" where
  "month t = fst (snd t)"

definition digit_in :: "nat \<Rightarrow> nat \<Rightarrow> char \<Rightarrow> bool" where
  "digit_in lo hi c = (is_digit c \<and> lo \<le> digit_val c \<and> digit_val c \<le> hi)"

definition re_one :: "nat \<Rightarrow> nat \<Rightarrow> string \<Rightarrow> (nat \<times> string) list" where
  "re_one lo hi s =
     (case s of
        x # r \<Rightarrow> if digit_in lo hi x then [(digit_val x, r)] else []
      | [] \<Rightarrow> [])"

definition re_two :: "nat \<Rightarrow> nat \<Rightarrow> nat \<Rightarrow> nat \<Rightarrow> string \<Rightarrow> (nat \<times> string) list" where
  "re_two a b c d s =
     (case s of
        x # y # r \<Rightarrow>
          if digit_in a b x \<and> digit_in c d y then [(10 * digit_val x + digit_val y, r)] else []
      | _ \<Rightarrow> [])"

definition re_lit :: "char \<Rightarrow> string \<Rightarrow> string list" where
  "re_lit c s = (case s of x # r \<Rightarrow> if x = c then [r] else [] | [] \<Rightarrow> [])"

definition re_Y :: "string \<Rightarrow> (nat \<times> string) list" where
  "re_Y s =
     (case s of
        a # b # c # d # r \<Rightarrow>
          if is_digit a \<and> is_digit b \<and> is_digit c \<and> is_digit d then
            [(1000 * digit_val a + 100 * digit_val b + 10 * digit_val c + digit_val d, r)]
          else []
      | _ \<Rightarrow> [])"

definition re_m :: "string \<Rightarrow> (nat \<times> string) list" where
  "re_m s = re_two 1 1 0 2 s @ re_two 0 0 1 9 s @ re_one 1 9 s"

definition re_d :: "string \<Rightarrow> (nat \<times> string) list" where
  "re_d s =
     re_two 3 3 0 1 s @ re_two 1 2 0 9 s @ re_two 0 0 1 9 s @ re_one 1 9 s @
     concat (map (re_one 1 9) (re_lit CHR '' '' s))"

definition re_H :: "string \<Rightarrow> (nat \<times> string) list" where
  "re_H s = re_two 2 2 0 3 s @ re_two 0 1 0 9 s @ re_one 0 9 s"

definition re_M :: "string \<Rightarrow> (nat \<times> string) list" where
  "re_M s = re_two 0 5 0 9 s @ re_one 0 9 s"

text \<open>\<open>\s\<close> on the ASCII range: tab to carriage return, the four separators, space.\<close>

definition is_space :: "char \<Rightarrow> bool" where
  "is_space c =
     (c \<in> set [CHR 0x09, CHR 0x0A, CHR 0x0B, CHR 0x0C, CHR 0x0D,
               CHR 0x1C, CHR 0x1D, CHR 0x1E, CHR 0x1F, CHR 0x20])"

definition re_spaces :: "string \<Rightarrow> string list" where
  "re_spaces s = map (\<lambda>k. drop k s) (rev [1..<Suc (length (takeWhile is_space s))])"

definition match_format :: "string \<Rightarrow> (datetime \<times> string) list" where
  "match_format s =
     [((y, m, d, h, mi), r8).
        (y, r1) \<leftarrow> re_Y s, r2 \<leftarrow> re_lit CHR ''-'' r1,
        (m, r3) \<leftarrow> re_m r2, r4 \<leftarrow> re_lit CHR ''-'' r3,
        (d, r5) \<leftarrow> re_d r4, r6 \<leftarrow> re_spaces r5,
        (h, r7) \<leftarrow> re_H r6, r7' \<leftarrow> re_lit CHR '':'' r7,
        (mi, r8) \<leftarrow> re_M r7']"

definition is_leap :: "nat \<Rightarrow> bool" where
  "is_leap y = (y mod 4 = 0 \<and> (y mod 100 \<noteq> 0 \<or> y mod 400 = 0))"

definition days_in_month :: "nat \<Rightarrow> nat \<Rightarrow> nat" where
  "days_in_month y m =
     (if m = 2 then (if is_leap y then 29 else 28)
      else if m \<in> set [4, 6, 9, 11] then 30 else 31)"

definition strptime :: "string \<Rightarrow> error + datetime" where
  "strptime data_string =
     (case match_format data_string of
        [] \<Rightarrow> Inl ValueError
      | ((y, m, d, h, mi), rest) # _ \<Rightarrow>
          if rest \<noteq> [] then Inl ValueError
          else if y < 1 \<or> days_in_month y m < d then Inl ValueError
          else Inr (y, m, d, h, mi))"

subsection \<open>Sort Expenses\<close>

text \<open>
  \<open>list.sort(key=f)\<close> first computes the key of every element, left to right (an
  exception of \<open>f\<close> ends the sort and leaves the list as it was), and then sorts
  stably, comparing keys with \<open><\<close> only. The model is the stable insertion sort that
  uses \<open><\<close> only: it returns what CPython returns whenever \<open><\<close> is a strict total order
  on the keys. With a NaN key CPython's result depends on how it merges runs, which
  is not modelled, and nothing is stated about that case.
\<close>

fun map_err :: "('a \<Rightarrow> error + 'b) \<Rightarrow> 'a list \<Rightarrow> error + 'b list" where
  "map_err f [] = Inr []"
| "map_err f (x # xs) =
     (case f x of
        Inl e \<Rightarrow> Inl e
      | Inr y \<Rightarrow> (case map_err f xs of Inl e \<Rightarrow> Inl e | Inr ys \<Rightarrow> Inr (y # ys)))"

fun insert_by :: "('k \<Rightarrow> 'k \<Rightarrow> bool) \<Rightarrow> 'k \<times> 'a \<Rightarrow> ('k \<times> 'a) list \<Rightarrow> ('k \<times> 'a) list" where
  "insert_by lt p [] = [p]"
| "insert_by lt p (q # qs) =
     (if lt (fst p) (fst q) then p # q # qs else q # insert_by lt p qs)"

definition isort :: "('k \<Rightarrow> 'k \<Rightarrow> bool) \<Rightarrow> ('k \<times> 'a) list \<Rightarrow> ('k \<times> 'a) list" where
  "isort lt ps = foldl (\<lambda>acc p. insert_by lt p acc) [] ps"

definition list_sort :: "('a \<Rightarrow> error + 'k) \<Rightarrow> ('k \<Rightarrow> 'k \<Rightarrow> bool) \<Rightarrow> 'a list \<Rightarrow> error + 'a list" where
  "list_sort key lt xs =
     (case map_err key xs of
        Inl e \<Rightarrow> Inl e
      | Inr ks \<Rightarrow> Inr (map snd (isort lt (zip ks xs))))"

definition sortByDate :: "expense list \<Rightarrow> error + expense list" where
  "sortByDate expenses = list_sort (\<lambda>x. strptime (date x)) (<) expenses"

definition sortByAmount :: "expense list \<Rightarrow> error + expense list" where
  "sortByAmount expenses = list_sort (\<lambda>x. float_cell (amount x)) fl_lt expenses"

datatype sort_by = ByDate | ByAmount

definition sort_expenses :: "store \<Rightarrow> sort_by \<Rightarrow> error + ui list" where
  "sort_expenses file choice =
     (case (case choice of
              ByDate \<Rightarrow> sortByDate (read_expenses file)
            | ByAmount \<Rightarrow> sortByAmount (read_expenses file)) of
        Inl e \<Rightarrow> Inl e
      | Inr expenses \<Rightarrow> Inr [St_table expenses])"

subsection \<open>Summary by Category\<close>

text \<open>
  \<open>summary = defaultdict(float)\<close> is a dictionary in insertion order; a key that is
  not there yet starts at \<open>0.0\<close>. \<open>summary[row[2]] += float(row[1])\<close> is \<open>dict_add\<close>.
\<close>

fun dict_add :: "(string \<times> pyfloat) list \<Rightarrow> string \<Rightarrow> pyfloat \<Rightarrow> (string \<times> pyfloat) list" where
  "dict_add [] k x = [(k, fl_add (Fin 0) x)]"
| "dict_add ((k', v) # d) k x =
     (if k' = k then (k', fl_add v x) # d else (k', v) # dict_add d k x)"

fun summary_loop :: "(string \<times> pyfloat) list \<Rightarrow> expense list \<Rightarrow> error + (string \<times> pyfloat) list" where
  "summary_loop summary [] = Inr summary"
| "summary_loop summary (row # rows) =
     (case float_cell (amount row) of
        Inl e \<Rightarrow> Inl e
      | Inr x \<Rightarrow> summary_loop (dict_add summary (category row) x) rows)"

definition byCategory :: "expense list \<Rightarrow> error + (string \<times> pyfloat) list" where
  "byCategory expenses = summary_loop [] expenses"

definition summary_by_category :: "store \<Rightarrow> error + ui list" where
  "summary_by_category file =
     (case byCategory (read_expenses file) of
        Inl e \<Rightarrow> Inl e
      | Inr summary \<Rightarrow>
          Inr (map (\<lambda>(category', total'). St_write (category' @ '': R'' @ fmt2 total')) summary))"

text \<open>The sum of the per-category totals, as \<open>sum(summary.values())\<close> would add them.\<close>

definition dict_total :: "(string \<times> pyfloat) list \<Rightarrow> pyfloat" where
  "dict_total d = foldl fl_add (Fin 0) (map snd d)"

subsection \<open>Financial Management Report\<close>

datatype time_range = This_Month | This_Year | All_Time

definition time_range_label :: "time_range \<Rightarrow> string" where
  "time_range_label time_range =
     (case time_range of This_Month \<Rightarrow> ''This Month'' | This_Year \<Rightarrow> ''This Year'' | All_Time \<Rightarrow> ''All Time'')"

fun filter_err :: "('a \<Rightarrow> error + bool) \<Rightarrow> 'a list \<Rightarrow> error + 'a list" where
  "filter_err p [] = Inr []"
| "filter_err p (x # xs) =
     (case p x of
        Inl e \<Rightarrow> Inl e
      | Inr b \<Rightarrow>
          (case filter_err p xs of
             Inl e \<Rightarrow> Inl e
           | Inr ys \<Rightarrow> Inr (if b then x # ys else ys)))"

definition filterByMonth :: "expense list \<Rightarrow> datetime \<Rightarrow> error + expense list" where
  "filterByMonth expenses now =
     filter_err
       (\<lambda>e. case strptime (date e) of
               Inl err \<Rightarrow> Inl err
             | Inr t \<Rightarrow> Inr (month t = month now \<and> year t = year now))
       expenses"

definition filterByYear :: "expense list \<Rightarrow> datetime \<Rightarrow> error + expense list" where
  "filterByYear expenses now =
     filter_err
       (\<lambda>e. case strptime (date e) of Inl err \<Rightarrow> Inl err | Inr t \<Rightarrow> Inr (year t = year now))
       expenses"

text \<open>
  \<open>tip_based_on_expenses\<close>: the second argument is what \<open>random.choice\<close> picks when
  the list is not empty.
\<close>

definition tip_based_on_expenses :: "expense list \<Rightarrow> string \<Rightarrow> string" where
  "tip_based_on_expenses expenses picked =
     (if expenses = [] then ''Start logging your expenses to get personalized tips!'' else picked)"

definition report ::
  "store \<Rightarrow> pyfloat option \<Rightarrow> time_range \<Rightarrow> pyfloat \<Rightarrow> datetime \<Rightarrow> string \<Rightarrow> error + ui list" where
  "report file salary time_range budget now picked =
     (let expenses = read_expenses file
      in if expenses \<noteq> [] then
           (case (case time_range of
                    This_Month \<Rightarrow> filterByMonth expenses now
                  | This_Year \<Rightarrow> filterByYear expenses now
                  | All_Time \<Rightarrow> Inr expenses) of
              Inl e \<Rightarrow> Inl e
            | Inr filtered \<Rightarrow>
                (case total_of filtered of
                   Inl e \<Rightarrow> Inl e
                 | Inr total' \<Rightarrow>
                     (let shown =
                            [St_subheader ''Financial Report'',
                             St_write (''**Total Spending ('' @ time_range_label time_range @ '')**: R'' @
                                         fmt2 total'),
                             St_info (financial_feedback total' (Some budget))];
                          tip = St_info (tip_based_on_expenses filtered picked)
                      in case salary of
                           None \<Rightarrow>
                             Inr (shown @
                               [St_info
                                  ''Please enter your salary in the sidebar to evaluate your financial health.'',
                                tip])
                         | Some salary' \<Rightarrow>
                             if truthy salary' then
                               (case fl_div total' salary' of
                                  Inl e \<Rightarrow> Inl e
                                | Inr q \<Rightarrow>
                                    (let percent_used = fl_mul q (Fin 100)
                                     in Inr (shown @
                                          [St_write (''You've spent **'' @ fmt2 percent_used @
                                             ''%** of your monthly salary (R'' @ fmt2 salary' @ '').''),
                                           if fl_gt percent_used (Fin 70) then
                                             St_warning
                                               ''Spending exceeds 70% of income. Consider budgeting more strictly.''
                                           else St_success ''You're within a responsible range.'',
                                           tip])))
                             else
                               Inr (shown @
                                 [St_info
                                    ''Please enter your salary in the sidebar to evaluate your financial health.'',
                                  tip]))))
         else Inr [St_info ''No data to evaluate.''])"

section \<open>Properties\<close>

subsection \<open>The tiers of \<open>financial_feedback\<close>\<close>

text \<open>
  Claim C1. With no budget supplied, \<open>financial_feedback\<close> returns the "No expenses
  recorded" message exactly when the total equals 0; the low-spend praise when
  \<open>0 < total < 1000\<close>; the "managing fairly well" caution when
  \<open>1000 <= total < 5000\<close>; the "budgeting more strictly" warning when
  \<open>5000 <= total < 10000\<close>; and the high-spending warning when \<open>total >= 10000\<close>.
  The comparisons are Python's, so the statement covers the infinities and NaN too.
\<close>

theorem financial_feedback_tiers:
  "(financial_feedback t None = ''No expenses recorded. Start tracking to understand your habits.''
      \<longleftrightarrow> fl_eq t (Fin 0))
   \<and> (fl_lt (Fin 0) t \<and> fl_lt t (Fin 1000) \<longrightarrow>
        financial_feedback t None = ''You're doing great! Keep up the low spending habits.'')
   \<and> (fl_le (Fin 1000) t \<and> fl_lt t (Fin 5000) \<longrightarrow>
        financial_feedback t None = ''You're managing fairly well, but review any non-essentials.'')
   \<and> (fl_le (Fin 5000) t \<and> fl_lt t (Fin 10000) \<longrightarrow>
        financial_feedback t None = ''Consider budgeting more strictly and cutting excesses.'')
   \<and> (fl_le (Fin 10000) t \<longrightarrow>
        financial_feedback t None =
          ''Warning: High spending! Analyze where most of your money is going.'')"
  by (cases t) (auto simp: financial_feedback_def fl_eq_def fl_le_def)

theorem financial_feedback_tiers_witness:
  "financial_feedback (Fin 0) None = ''No expenses recorded. Start tracking to understand your habits.''
   \<and> financial_feedback (Fin 999) None = ''You're doing great! Keep up the low spending habits.''
   \<and> financial_feedback (Fin 1000) None =
         ''You're managing fairly well, but review any non-essentials.''
   \<and> financial_feedback (Fin 5000) None = ''Consider budgeting more strictly and cutting excesses.''
   \<and> financial_feedback (Fin 10000) None =
         ''Warning: High spending! Analyze where most of your money is going.''"
  using financial_feedback_tiers [of "Fin 0"] financial_feedback_tiers [of "Fin 999"]
    financial_feedback_tiers [of "Fin 1000"] financial_feedback_tiers [of "Fin 5000"]
    financial_feedback_tiers [of "Fin 10000"]
  by (simp add: fl_eq_def fl_le_def)

end
